theory Spec2Isabelle
  imports Main
begin

section \<open>Data model\<close>

text \<open>
  The types of \<^verbatim>\<open>types.ts\<close> as the two modules use them.  An optional
  field (\<^verbatim>\<open>files?\<close>, \<^verbatim>\<open>groundingChunks?\<close>, \<^verbatim>\<open>description?\<close>) is an
  \<open>option\<close>, \<open>None\<close> standing for \<^verbatim>\<open>undefined\<close>.  Every \<^verbatim>\<open>Date.now()\<close> and
  \<^verbatim>\<open>new Date()\<close> is a natural number read from a clock that is passed in.
  Of \<^verbatim>\<open>Settings\<close> only the two fields read by the service are kept; the
  others (theme, colours, font) only reach the style sheet.
\<close>

datatype Role = User | Model

record UploadedFile =
  file_id :: string
  file_name :: string
  file_type :: string
  file_size :: nat
  file_data :: string
  file_description :: "string option"

datatype GroundingChunk = GroundingChunk (web: "(string \<times> string) option")

record Message =
  msg_id :: string
  msg_role :: Role
  msg_text :: string
  msg_files :: "UploadedFile list option"
  msg_timestamp :: nat
  groundingChunks :: "GroundingChunk list option"

record Conversation =
  conv_id :: string
  title :: string
  messages :: "Message list"
  createdAt :: nat

record Settings =
  systemPrompt :: string
  useSearch :: bool

datatype SendMode = Default | NoThinking | Search | Image

datatype error = TypeError | NoImageReturned | BackendError string

section \<open>The backend's content model\<close>

text \<open>
  A \<^verbatim>\<open>Part\<close> is either \<^verbatim>\<open>{ text }\<close> or \<^verbatim>\<open>{ inlineData: { mimeType, data } }\<close>;
  \<^verbatim>\<open>data\<close> is \<^verbatim>\<open>undefined\<close> when the data string had no comma.
\<close>

datatype Part = TextPart string | InlineData string "string option"

record Content =
  role :: Role
  parts :: "Part list"

datatype Tool = GoogleSearch

record Config =
  systemInstruction :: "string option"
  tools :: "Tool list option"
  thinkingBudget :: "nat option"

definition textModel :: string where
  "textModel = ''gemini-2.5-flash''"

definition imageModel :: string where
  "imageModel = ''imagen-4.0-generate-001''"

definition imageEditModel :: string where
  "imageEditModel = ''gemini-2.5-flash-image-preview''"

section \<open>String helpers of the host language\<close>

text \<open>
  \<^verbatim>\<open>s.split(c)\<close> for a one-character separator.  The result of \<^verbatim>\<open>split\<close> is
  never empty, so it is returned as its first segment and the list of the
  remaining ones: \<^verbatim>\<open>[0]\<close> is the first component, \<^verbatim>\<open>[1]\<close> the head of the
  second when there is one and \<^verbatim>\<open>undefined\<close> otherwise.
\<close>

fun split_js :: "char \<Rightarrow> string \<Rightarrow> string \<times> string list" where
  "split_js c [] = ([], [])"
| "split_js c (x # xs) =
     (case split_js c xs of
        (seg, segs) \<Rightarrow> if x = c then ([], seg # segs) else (x # seg, segs))"

definition digit_char :: "nat \<Rightarrow> char" where
  "digit_char d =
     (if d = 0 then CHR ''0'' else if d = 1 then CHR ''1'' else if d = 2 then CHR ''2''
      else if d = 3 then CHR ''3'' else if d = 4 then CHR ''4'' else if d = 5 then CHR ''5''
      else if d = 6 then CHR ''6'' else if d = 7 then CHR ''7'' else if d = 8 then CHR ''8''
      else CHR ''9'')"

text \<open>The decimal rendering of a number inside a template literal.\<close>

fun string_of_nat :: "nat \<Rightarrow> string" where
  "string_of_nat n =
     (if n < 10 then [digit_char n]
      else string_of_nat (n div 10) @ [digit_char (n mod 10)])"

text \<open>
  \<^verbatim>\<open>\s\<close> and \<^verbatim>\<open>trim()\<close> on the characters a \<open>char\<close> can hold: tab, line feed,
  vertical tab, form feed, carriage return, space and the no-break space.
\<close>

definition is_space :: "char \<Rightarrow> bool" where
  "is_space c = (c \<in> set [CHR 0x09, CHR 0x0A, CHR 0x0B, CHR 0x0C, CHR 0x0D, CHR 0x20, CHR 0xA0])"

definition trim :: "string \<Rightarrow> string" where
  "trim s = rev (dropWhile is_space (rev (dropWhile is_space s)))"

definition substring_0_30 :: "string \<Rightarrow> string" where
  "substring_0_30 s = take 30 s"

section \<open>geminiService.ts\<close>

subsection \<open>Attachments as content parts\<close>

text \<open>
  The preface pushed before each file (lines 106--110 and 152--156): a
  description that is \<^verbatim>\<open>undefined\<close> or empty is falsy.
\<close>

definition filePreface :: "UploadedFile \<Rightarrow> string" where
  \<open>filePreface file =
     (case file_description file of
        None \<Rightarrow> ''This is the file with the original filename "'' @ file_name file @ ''".''
      | Some d \<Rightarrow>
          if d \<noteq> [] then
            ''This file, which I've named "'' @ d @ ''", has the original filename "''
              @ file_name file @ ''".''
          else ''This is the file with the original filename "'' @ file_name file @ ''".'')\<close>

text \<open>
  The data part (lines 49--57, 113--120 and 159--166):
  \<^verbatim>\<open>const [meta, base64Data] = file.data.split(',');\<close>
  \<^verbatim>\<open>const mimeType = meta.split(':')[1].split(';')[0];\<close>
  When \<^verbatim>\<open>meta\<close> holds no colon, \<^verbatim>\<open>meta.split(':')[1]\<close> is \<^verbatim>\<open>undefined\<close> and
  the call of \<^verbatim>\<open>split\<close> on it throws a TypeError.
\<close>

definition fileDataPart :: "UploadedFile \<Rightarrow> error + Part" where
  "fileDataPart file =
     (let (meta, rest) = split_js CHR '','' (file_data file);
          base64Data = (case rest of [] \<Rightarrow> None | b # _ \<Rightarrow> Some b)
      in case snd (split_js CHR '':'' meta) of
           [] \<Rightarrow> Inl TypeError
         | m1 # _ \<Rightarrow> Inr (InlineData (fst (split_js CHR '';'' m1)) base64Data))"

text \<open>
  The \<^verbatim>\<open>forEach\<close> over the files of one turn (lines 104--121 and 150--167):
  preface, then data, for each file in order; the first throw ends it.
\<close>

fun fileParts :: "UploadedFile list \<Rightarrow> error + Part list" where
  "fileParts [] = Inr []"
| "fileParts (file # files) =
     (case fileDataPart file of
        Inl e \<Rightarrow> Inl e
      | Inr d \<Rightarrow>
          (case fileParts files of
             Inl e \<Rightarrow> Inl e
           | Inr ps \<Rightarrow> Inr (TextPart (filePreface file) # d # ps)))"

subsection \<open>mapHistoryToGenAI\<close>

text \<open>The callback of \<^verbatim>\<open>history.map\<close> (lines 99--135).\<close>

definition messageToContent :: "Message \<Rightarrow> error + Content" where
  "messageToContent msg =
     (case msg_files msg of
        Some (f # fs) \<Rightarrow>
          if msg_role msg = User then
            (case fileParts (f # fs) of
               Inl e \<Rightarrow> Inl e
             | Inr ps \<Rightarrow>
                 Inr \<lparr>role = msg_role msg,
                      parts = ps @ (if msg_text msg \<noteq> [] then [TextPart (msg_text msg)] else [])\<rparr>)
          else
            Inr \<lparr>role = msg_role msg,
                 parts = (if msg_text msg \<noteq> [] then [TextPart (msg_text msg)] else [])\<rparr>
      | _ \<Rightarrow>
          Inr \<lparr>role = msg_role msg,
               parts = (if msg_text msg \<noteq> [] then [TextPart (msg_text msg)] else [])\<rparr>)"

fun mapHistoryToGenAI :: "Message list \<Rightarrow> error + Content list" where
  "mapHistoryToGenAI [] = Inr []"
| "mapHistoryToGenAI (msg # history) =
     (case messageToContent msg of
        Inl e \<Rightarrow> Inl e
      | Inr c \<Rightarrow>
          (case mapHistoryToGenAI history of
             Inl e \<Rightarrow> Inl e
           | Inr cs \<Rightarrow> Inr (c # cs)))"

subsection \<open>streamResponse: the request\<close>

text \<open>Lines 176--191: the configuration object.\<close>

definition effectiveSearch :: "Settings \<Rightarrow> SendMode \<Rightarrow> bool" where
  "effectiveSearch settings sendMode =
     ((sendMode = Search) \<or> (useSearch settings \<and> sendMode = Default))"

definition requestConfig :: "Settings \<Rightarrow> SendMode \<Rightarrow> UploadedFile list \<Rightarrow> Config" where
  "requestConfig settings sendMode files =
     (let useSearch' = effectiveSearch settings sendMode;
          useNoThinking = (sendMode = NoThinking);
          config = \<lparr>systemInstruction =
                      (if systemPrompt settings \<noteq> [] then Some (systemPrompt settings) else None),
                    tools = None, thinkingBudget = None\<rparr>;
          config = (if useSearch' \<and> length files = 0
                    then config\<lparr>tools := Some [GoogleSearch]\<rparr> else config);
          config = (if useNoThinking then config\<lparr>thinkingBudget := Some 0\<rparr> else config)
      in config)"

text \<open>
  Lines 145--198 up to the call of the backend: the contents and the
  configuration passed to \<^verbatim>\<open>generateContentStream\<close>, or the error thrown
  while they are built.
\<close>

definition streamRequest ::
  "Message list \<Rightarrow> string \<Rightarrow> UploadedFile list \<Rightarrow> Settings \<Rightarrow> SendMode
     \<Rightarrow> error + (Content list \<times> Config)" where
  "streamRequest history text files settings sendMode =
     (case mapHistoryToGenAI history of
        Inl e \<Rightarrow> Inl e
      | Inr finalHistory \<Rightarrow>
          (case fileParts files of
             Inl e \<Rightarrow> Inl e
           | Inr fps \<Rightarrow>
               (let newParts = fps @ (if text \<noteq> [] then [TextPart text] else []);
                    newContent = \<lparr>role = User, parts = newParts\<rparr>
                in Inr (finalHistory @ [newContent], requestConfig settings sendMode files))))"

subsection \<open>The backend\<close>

text \<open>
  The three operations of the SDK client that the service awaits, as the
  functions of a record: each returns the error its promise rejects with, or
  its response.  The first argument is the model name.  A response of
  \<^verbatim>\<open>generateImages\<close> is the list of the \<^verbatim>\<open>imageBytes\<close> of its
  \<^verbatim>\<open>generatedImages\<close>; a response of \<^verbatim>\<open>generateContent\<close> is the list of its
  candidates, each the list of its content parts; a response of
  \<^verbatim>\<open>generateContentStream\<close> is the fragments the generator yields and the
  error it throws after them, if any.  A fragment is read through
  \<^verbatim>\<open>chunk.text\<close> and
  \<^verbatim>\<open>chunk.candidates?.[0]?.groundingMetadata?.groundingChunks\<close>.
\<close>

record ResponsePart =
  rp_text :: "string option"
  rp_inlineData :: "(string \<times> string) option"

record Chunk =
  chunk_text :: "string option"
  chunk_groundingChunks :: "GroundingChunk list option"

record Backend =
  generateImages :: "string \<Rightarrow> string \<Rightarrow> error + string list"
  generateContent :: "string \<Rightarrow> Part list \<Rightarrow> error + ResponsePart list list"
  generateContentStream ::
    "string \<Rightarrow> Content list \<Rightarrow> Config \<Rightarrow> error + (Chunk list \<times> error option)"

text \<open>A string or \<^verbatim>\<open>undefined\<close> in a truth test and in a concatenation.\<close>

definition js_text :: "string option \<Rightarrow> string" where
  "js_text t = (case t of None \<Rightarrow> [] | Some s \<Rightarrow> s)"

definition js_concat_text :: "string option \<Rightarrow> string" where
  "js_concat_text t = (case t of None \<Rightarrow> ''undefined'' | Some s \<Rightarrow> s)"

subsection \<open>generateImage\<close>

definition generateImage :: "Backend \<Rightarrow> nat \<Rightarrow> string \<Rightarrow> error + UploadedFile" where
  \<open>generateImage be now prompt =
     (case generateImages be imageModel prompt of
        Inl e \<Rightarrow> Inl e
      | Inr generatedImages \<Rightarrow>
          (case generatedImages of
             [] \<Rightarrow> Inl TypeError
           | base64ImageBytes # _ \<Rightarrow>
               Inr \<lparr>file_id = ''img-'' @ string_of_nat now,
                    file_name =
                      map (\<lambda>c. if is_space c then CHR ''_'' else c) (trim (substring_0_30 prompt))
                        @ ''.png'',
                    file_type = ''image/png'',
                    file_size = length base64ImageBytes,
                    file_data = ''data:image/png;base64,'' @ base64ImageBytes,
                    file_description =
                      Some (''Generated image for prompt: "'' @ prompt @ ''"'')\<rparr>))\<close>

subsection \<open>editImage\<close>

text \<open>Lines 49--62: the parts sent to the image-editing model.\<close>

definition editImageRequest :: "string \<Rightarrow> UploadedFile \<Rightarrow> error + Part list" where
  "editImageRequest prompt imageFile =
     (case fileDataPart imageFile of
        Inl e \<Rightarrow> Inl e
      | Inr imagePart \<Rightarrow> Inr [imagePart, TextPart prompt])"

text \<open>
  Lines 69--88: the loop over the parts of the first candidate.  The clock is
  read once for the identifier of the file.
\<close>

fun editImageParts ::
  "nat \<Rightarrow> string \<Rightarrow> UploadedFile \<Rightarrow> ResponsePart list \<Rightarrow> string \<times> UploadedFile option
     \<Rightarrow> string \<times> UploadedFile option" where
  "editImageParts now prompt imageFile [] acc = acc"
| \<open>editImageParts now prompt imageFile (part # ps) (responseText, newImageFile) =
     (if js_text (rp_text part) \<noteq> [] then
        editImageParts now prompt imageFile ps (responseText @ js_text (rp_text part), newImageFile)
      else
        (case rp_inlineData part of
           Some (newMimeType, newBase64) \<Rightarrow>
             editImageParts now prompt imageFile ps
               (responseText,
                Some \<lparr>file_id = ''img-edit-'' @ string_of_nat now,
                      file_name = ''edited_'' @ file_name imageFile,
                      file_type = newMimeType,
                      file_size = length newBase64,
                      file_data = ''data:'' @ newMimeType @ '';base64,'' @ newBase64,
                      file_description =
                        Some (''Edited image for prompt: "'' @ prompt @ ''"'')\<rparr>)
         | None \<Rightarrow> editImageParts now prompt imageFile ps (responseText, newImageFile)))\<close>

definition editImage ::
  "Backend \<Rightarrow> nat \<Rightarrow> string \<Rightarrow> UploadedFile \<Rightarrow> error + (string \<times> UploadedFile)" where
  "editImage be now prompt imageFile =
     (case editImageRequest prompt imageFile of
        Inl e \<Rightarrow> Inl e
      | Inr request \<Rightarrow>
          (case generateContent be imageEditModel request of
             Inl e \<Rightarrow> Inl e
           | Inr candidates \<Rightarrow>
               (case candidates of
                  [] \<Rightarrow> Inl TypeError
                | ps # _ \<Rightarrow>
                    (case editImageParts now prompt imageFile ps ([], None) of
                       (responseText, None) \<Rightarrow> Inl NoImageReturned
                     | (responseText, Some newImageFile) \<Rightarrow> Inr (responseText, newImageFile)))))"

subsection \<open>streamResponse\<close>

definition streamResponse ::
  "Backend \<Rightarrow> Message list \<Rightarrow> string \<Rightarrow> UploadedFile list \<Rightarrow> Settings \<Rightarrow> SendMode
     \<Rightarrow> error + (Chunk list \<times> error option)" where
  "streamResponse be history text files settings sendMode =
     (case streamRequest history text files settings sendMode of
        Inl e \<Rightarrow> Inl e
      | Inr (contents, config) \<Rightarrow> generateContentStream be textModel contents config)"

section \<open>App.tsx\<close>

text \<open>
  The state the handlers write, and the readings of the clock during one
  handler: \<open>t_\<close> for a \<^verbatim>\<open>Date.now()\<close> inside an identifier, \<open>d_\<close> for a
  \<^verbatim>\<open>new Date()\<close>.
\<close>

record AppState =
  conversations :: "Conversation list"
  currentConversationId :: "string option"
  isThinking :: bool

record Clock =
  t_conv :: nat
  d_conv :: nat
  t_user :: nat
  d_user :: nat
  t_bot :: nat
  d_bot :: nat
  t_file :: nat
  t_err :: nat
  d_err :: nat

definition currentConversation :: "AppState \<Rightarrow> Conversation option" where
  "currentConversation st =
     (case currentConversationId st of
        None \<Rightarrow> None
      | Some i \<Rightarrow> find (\<lambda>c. conv_id c = i) (conversations st))"

definition handleNewConversation :: "Clock \<Rightarrow> AppState \<Rightarrow> AppState" where
  "handleNewConversation clock st =
     (let newConversation =
            \<lparr>conv_id = ''conv-'' @ string_of_nat (t_conv clock), title = ''New Conversation'',
             messages = [], createdAt = d_conv clock\<rparr>
      in st\<lparr>conversations := newConversation # conversations st,
            currentConversationId := Some (conv_id newConversation)\<rparr>)"

text \<open>Lines 94--100.\<close>

definition handleDeleteConversation :: "string \<Rightarrow> AppState \<Rightarrow> AppState" where
  "handleDeleteConversation i st =
     st\<lparr>conversations := filter (\<lambda>c. conv_id c \<noteq> i) (conversations st),
        currentConversationId :=
          (if currentConversationId st = Some i then
             (let remainingConversations = filter (\<lambda>c. conv_id c \<noteq> i) (conversations st)
              in case remainingConversations of [] \<Rightarrow> None | c # _ \<Rightarrow> Some (conv_id c))
           else currentConversationId st)\<rparr>"

text \<open>
  The updater \<^verbatim>\<open>prev => prev.map(c => c.id === convId ? { ...c, messages:
  [...c.messages, m] } : c)\<close> of lines 127, 139, 149, 220, 232, 242 and 270.
\<close>

definition appendMessage :: "string \<Rightarrow> Message \<Rightarrow> Conversation list \<Rightarrow> Conversation list" where
  "appendMessage convId m prev =
     map (\<lambda>c. if conv_id c = convId then c\<lparr>messages := messages c @ [m]\<rparr> else c) prev"

text \<open>The expression \<^verbatim>\<open>text.substring(0, 30) || 'New Conversation'\<close> of lines 164 and 196.\<close>

definition titleFromText :: "string \<Rightarrow> string" where
  "titleFromText text =
     (if substring_0_30 text \<noteq> [] then substring_0_30 text else ''New Conversation'')"

text \<open>Lines 192--198.\<close>

definition updateWithUserMessage ::
  "string \<Rightarrow> Message \<Rightarrow> string \<Rightarrow> Conversation \<Rightarrow> Conversation" where
  "updateWithUserMessage convId userMessage text convo =
     (if conv_id convo = convId then
        convo\<lparr>messages := messages convo @ [userMessage],
              title := (if length (messages convo) = 0 then titleFromText text else title convo)\<rparr>
      else convo)"

text \<open>The updater of lines 253--258 and the loop of lines 248--259.\<close>

definition patchStreaming ::
  "string \<Rightarrow> string \<Rightarrow> string \<Rightarrow> GroundingChunk list option \<Rightarrow> Conversation list
     \<Rightarrow> Conversation list" where
  "patchStreaming convId msgId streamedText gcs prev =
     map (\<lambda>c. if conv_id c = convId then
                 c\<lparr>messages :=
                     map (\<lambda>m. if msg_id m = msgId
                               then m\<lparr>msg_text := streamedText, groundingChunks := gcs\<rparr> else m)
                       (messages c)\<rparr>
               else c) prev"

fun streamLoop ::
  "string \<Rightarrow> Message \<Rightarrow> Chunk list \<Rightarrow> string \<Rightarrow> Conversation list
     \<Rightarrow> string \<times> Conversation list" where
  "streamLoop convId modelMessage [] streamedText prev = (streamedText, prev)"
| "streamLoop convId modelMessage (chunk # chunks) streamedText prev =
     (let streamedText' = streamedText @ js_concat_text (chunk_text chunk);
          gcs = (case chunk_groundingChunks chunk of
                   Some g \<Rightarrow> Some g
                 | None \<Rightarrow> groundingChunks modelMessage)
      in streamLoop convId modelMessage chunks streamedText'
           (patchStreaming convId (msg_id modelMessage) streamedText' gcs prev))"

subsection \<open>handleSendMessage\<close>

text \<open>
  The handler is asynchronous.  It is modelled in two parts:
  \<open>handleSendMessage_begin\<close> is everything it does before it first waits
  for the backend, and returns the state a view can observe while the call
  is in flight together with the locals the rest of the handler closes over;
  \<open>handleSendMessage_resume\<close> is the rest, run on the state the store
  has when the backend answers.  \<open>handleSendMessage\<close> runs both with no
  other event in between.
\<close>

record SendCtx =
  ctx_convId :: string
  ctx_history :: "Message list"
  ctx_text :: string
  ctx_files :: "UploadedFile list"
  ctx_sendMode :: SendMode

definition userMessageOf :: "Clock \<Rightarrow> string \<Rightarrow> UploadedFile list \<Rightarrow> Message" where
  "userMessageOf clock text files =
     \<lparr>msg_id = ''msg-'' @ string_of_nat (t_user clock), msg_role = User, msg_text = text,
      msg_files = Some files, msg_timestamp = d_user clock, groundingChunks = None\<rparr>"

text \<open>Lines 235--241: the turn that the stream fills.\<close>

definition streamingModelMessage :: "Clock \<Rightarrow> Message" where
  "streamingModelMessage clock =
     \<lparr>msg_id = ''msg-'' @ string_of_nat (t_bot clock) @ ''-bot'', msg_role = Model, msg_text = [],
      msg_files = None, msg_timestamp = d_bot clock, groundingChunks = Some []\<rparr>"

text \<open>Lines 213--219 and 225--231: the turns of the two image operations.\<close>

definition imageEditModelMessage :: "Clock \<Rightarrow> string \<Rightarrow> UploadedFile \<Rightarrow> Message" where
  "imageEditModelMessage clock responseText editedFile =
     \<lparr>msg_id = ''msg-'' @ string_of_nat (t_bot clock) @ ''-bot-img-edit'', msg_role = Model,
      msg_text = responseText, msg_files = Some [editedFile], msg_timestamp = d_bot clock,
      groundingChunks = None\<rparr>"

definition modelImageMessage :: "Clock \<Rightarrow> UploadedFile \<Rightarrow> Message" where
  "modelImageMessage clock generatedFile =
     \<lparr>msg_id = ''msg-'' @ string_of_nat (t_bot clock) @ ''-bot-img'', msg_role = Model,
      msg_text = [], msg_files = Some [generatedFile], msg_timestamp = d_bot clock,
      groundingChunks = None\<rparr>"

text \<open>Lines 263--269 and 142--148: the turn of a \<^verbatim>\<open>catch\<close> block, for its message.\<close>

definition errorBotMessage :: "Clock \<Rightarrow> string \<Rightarrow> Message" where
  "errorBotMessage clock errorMessage =
     \<lparr>msg_id = ''msg-'' @ string_of_nat (t_err clock) @ ''-bot-error'', msg_role = Model,
      msg_text = errorMessage, msg_files = None, msg_timestamp = d_err clock,
      groundingChunks = None\<rparr>"

definition sendErrorMessage :: string where
  "sendErrorMessage = ''Sorry, something went wrong. Please try again.''"

definition editErrorMessage :: string where
  "editErrorMessage = ''Sorry, I couldn't edit that image. Please try again.''"

text \<open>Lines 156--206, and lines 235--244 when the mode is not \<^verbatim>\<open>'image'\<close>.\<close>

definition handleSendMessage_begin ::
  "Clock \<Rightarrow> string \<Rightarrow> UploadedFile list \<Rightarrow> SendMode \<Rightarrow> AppState \<Rightarrow> AppState \<times> SendCtx" where
  "handleSendMessage_begin clock text files sendMode st =
     (let isNewConversation = (currentConversation st = None);
          conversationToUpdate =
            (case currentConversation st of
               Some c \<Rightarrow> c
             | None \<Rightarrow>
                 \<lparr>conv_id = ''conv-'' @ string_of_nat (t_conv clock), title = titleFromText text,
                  messages = [], createdAt = d_conv clock\<rparr>);
          history = messages conversationToUpdate;
          convId = conv_id conversationToUpdate;
          filesForUserMessage = (if sendMode = Image \<and> length files = 0 then [] else files);
          userMessage = userMessageOf clock text filesForUserMessage;
          convs1 =
            (if isNewConversation
             then conversationToUpdate\<lparr>messages := [userMessage]\<rparr> # conversations st
             else map (updateWithUserMessage convId userMessage text) (conversations st));
          convs2 =
            (if sendMode = Image then convs1
             else appendMessage convId (streamingModelMessage clock) convs1)
      in (\<lparr>conversations = convs2,
           currentConversationId =
             (if isNewConversation then Some convId else currentConversationId st),
           isThinking = True\<rparr>,
          \<lparr>ctx_convId = convId, ctx_history = history, ctx_text = text, ctx_files = files,
           ctx_sendMode = sendMode\<rparr>))"

text \<open>
  The branch taken inside the \<^verbatim>\<open>try\<close> block (lines 209, 210 and 234): which
  service function is called, and with what.
\<close>

datatype ServiceCall =
    CallEditImage string UploadedFile
  | CallGenerateImage string
  | CallStreamResponse "Message list" string "UploadedFile list" SendMode

definition dispatch :: "SendCtx \<Rightarrow> ServiceCall" where
  "dispatch ctx =
     (if ctx_sendMode ctx = Image then
        (case ctx_files ctx of
           [] \<Rightarrow> CallGenerateImage (ctx_text ctx)
         | f # _ \<Rightarrow>
             if take 6 (file_type f) = ''image/'' then CallEditImage (ctx_text ctx) f
             else CallGenerateImage (ctx_text ctx))
      else CallStreamResponse (ctx_history ctx) (ctx_text ctx) (ctx_files ctx) (ctx_sendMode ctx))"

text \<open>
  The \<^verbatim>\<open>try\<close> block from its first \<^verbatim>\<open>await\<close> on: the conversation list it
  leaves, and the error it throws, if any.
\<close>

definition sendTry ::
  "Backend \<Rightarrow> Clock \<Rightarrow> Settings \<Rightarrow> SendCtx \<Rightarrow> Conversation list
     \<Rightarrow> Conversation list \<times> error option" where
  "sendTry be clock settings ctx prev =
     (case dispatch ctx of
        CallEditImage prompt f \<Rightarrow>
          (case editImage be (t_file clock) prompt f of
             Inl e \<Rightarrow> (prev, Some e)
           | Inr (responseText, editedFile) \<Rightarrow>
               (appendMessage (ctx_convId ctx)
                  (imageEditModelMessage clock responseText editedFile) prev, None))
      | CallGenerateImage prompt \<Rightarrow>
          (case generateImage be (t_file clock) prompt of
             Inl e \<Rightarrow> (prev, Some e)
           | Inr generatedFile \<Rightarrow>
               (appendMessage (ctx_convId ctx) (modelImageMessage clock generatedFile) prev, None))
      | CallStreamResponse history text files sendMode \<Rightarrow>
          (case streamResponse be history text files settings sendMode of
             Inl e \<Rightarrow> (prev, Some e)
           | Inr (chunks, failure) \<Rightarrow>
               (snd (streamLoop (ctx_convId ctx) (streamingModelMessage clock) chunks [] prev),
                failure)))"

text \<open>The \<^verbatim>\<open>try\<close> block from its first \<^verbatim>\<open>await\<close> on, \<^verbatim>\<open>catch\<close> and \<^verbatim>\<open>finally\<close>.\<close>

definition handleSendMessage_resume ::
  "Backend \<Rightarrow> Clock \<Rightarrow> Settings \<Rightarrow> SendCtx \<Rightarrow> AppState \<Rightarrow> AppState" where
  "handleSendMessage_resume be clock settings ctx st =
     (case sendTry be clock settings ctx (conversations st) of
        (convs, None) \<Rightarrow> st\<lparr>conversations := convs, isThinking := False\<rparr>
      | (convs, Some e) \<Rightarrow>
          st\<lparr>conversations :=
               appendMessage (ctx_convId ctx) (errorBotMessage clock sendErrorMessage) convs,
             isThinking := False\<rparr>)"

definition handleSendMessage ::
  "Backend \<Rightarrow> Clock \<Rightarrow> Settings \<Rightarrow> string \<Rightarrow> UploadedFile list \<Rightarrow> SendMode \<Rightarrow> AppState
     \<Rightarrow> AppState" where
  "handleSendMessage be clock settings text files sendMode st =
     (case handleSendMessage_begin clock text files sendMode st of
        (st1, ctx) \<Rightarrow> handleSendMessage_resume be clock settings ctx st1)"

subsection \<open>handleEditImage\<close>

text \<open>
  Lines 116--128: without a current conversation the handler returns at
  once (\<open>None\<close>); otherwise the state while the call is in flight, and the
  conversation addressed.
\<close>

definition handleEditImage_begin ::
  "Clock \<Rightarrow> string \<Rightarrow> UploadedFile \<Rightarrow> AppState \<Rightarrow> (AppState \<times> string) option" where
  "handleEditImage_begin clock prompt fileToEdit st =
     (case currentConversation st of
        None \<Rightarrow> None
      | Some c \<Rightarrow>
          Some (st\<lparr>conversations :=
                      appendMessage (conv_id c) (userMessageOf clock prompt [fileToEdit])
                        (conversations st),
                    isThinking := True\<rparr>,
                conv_id c))"

text \<open>Lines 130--152.\<close>

definition handleEditImage_resume ::
  "Backend \<Rightarrow> Clock \<Rightarrow> string \<Rightarrow> string \<Rightarrow> UploadedFile \<Rightarrow> AppState \<Rightarrow> AppState" where
  "handleEditImage_resume be clock convId prompt fileToEdit st =
     (case editImage be (t_file clock) prompt fileToEdit of
        Inr (text, file) \<Rightarrow>
          st\<lparr>conversations :=
               appendMessage convId
                 \<lparr>msg_id = ''msg-'' @ string_of_nat (t_bot clock) @ ''-bot-edit'', msg_role = Model,
                  msg_text = text, msg_files = Some [file], msg_timestamp = d_bot clock,
                  groundingChunks = None\<rparr>
                 (conversations st),
             isThinking := False\<rparr>
      | Inl e \<Rightarrow>
          st\<lparr>conversations :=
               appendMessage convId (errorBotMessage clock editErrorMessage) (conversations st),
             isThinking := False\<rparr>)"

definition handleEditImage ::
  "Backend \<Rightarrow> Clock \<Rightarrow> string \<Rightarrow> UploadedFile \<Rightarrow> AppState \<Rightarrow> AppState" where
  "handleEditImage be clock prompt fileToEdit st =
     (case handleEditImage_begin clock prompt fileToEdit st of
        None \<Rightarrow> st
      | Some (st1, convId) \<Rightarrow> handleEditImage_resume be clock convId prompt fileToEdit st1)"

section \<open>Example inputs\<close>

text \<open>Concrete values at which the theorems below are instantiated.\<close>

definition ex_file :: UploadedFile where
  "ex_file = \<lparr>file_id = ''file-1'', file_name = ''cat.png'', file_type = ''image/png'',
     file_size = 3, file_data = ''data:image/png;base64,AAAA'', file_description = Some ''my cat''\<rparr>"

definition ex_doc :: UploadedFile where
  "ex_doc = \<lparr>file_id = ''file-2'', file_name = ''notes.txt'', file_type = ''text/plain'',
     file_size = 2, file_data = ''data:text/plain;base64,aGk='', file_description = Some []\<rparr>"

definition ex_user_turn :: Message where
  "ex_user_turn = \<lparr>msg_id = ''msg-1'', msg_role = User, msg_text = ''compare'',
     msg_files = Some [ex_file, ex_doc], msg_timestamp = 1, groundingChunks = None\<rparr>"

definition ex_model_turn :: Message where
  "ex_model_turn = \<lparr>msg_id = ''msg-2-bot'', msg_role = Model, msg_text = ''A cat.'',
     msg_files = None, msg_timestamp = 2, groundingChunks = Some []\<rparr>"

definition ex_clock :: Clock where
  "ex_clock = \<lparr>t_conv = 10, d_conv = 10, t_user = 11, d_user = 11, t_bot = 12, d_bot = 12,
     t_file = 13, t_err = 14, d_err = 14\<rparr>"

definition ex_settings :: Settings where
  "ex_settings = \<lparr>systemPrompt = ''Be brief.'', useSearch = True\<rparr>"

definition ex_conv :: Conversation where
  "ex_conv = \<lparr>conv_id = ''conv-1'', title = ''New Conversation'', messages = [], createdAt = 1\<rparr>"

definition ex_state :: AppState where
  "ex_state = \<lparr>conversations = [ex_conv], currentConversationId = Some ''conv-1'',
     isThinking = False\<rparr>"

definition ex_ref :: GroundingChunk where
  "ex_ref = GroundingChunk (Some (''https://example.org'', ''Example''))"

definition ex_backend :: Backend where
  "ex_backend =
     \<lparr>generateImages = (\<lambda>model prompt. Inr [''QUJD'']),
      generateContent = (\<lambda>model request.
        Inr [[\<lparr>rp_text = Some ''Done.'', rp_inlineData = None\<rparr>,
              \<lparr>rp_text = None, rp_inlineData = Some (''image/png'', ''WFla'')\<rparr>]]),
      generateContentStream = (\<lambda>model contents config.
        Inr ([\<lparr>chunk_text = Some ''Hello'', chunk_groundingChunks = Some [ex_ref]\<rparr>,
              \<lparr>chunk_text = Some '' world'', chunk_groundingChunks = None\<rparr>], None))\<rparr>"

definition ex_backend_down :: Backend where
  "ex_backend_down =
     \<lparr>generateImages = (\<lambda>model prompt. Inl (BackendError ''503'')),
      generateContent = (\<lambda>model request. Inl (BackendError ''503'')),
      generateContentStream = (\<lambda>model contents config. Inl (BackendError ''503''))\<rparr>"

definition ex_backend_broken :: Backend where
  "ex_backend_broken =
     \<lparr>generateImages = (\<lambda>model prompt. Inr []),
      generateContent = (\<lambda>model request.
        Inr [[\<lparr>rp_text = Some ''I cannot.'', rp_inlineData = None\<rparr>]]),
      generateContentStream = (\<lambda>model contents config.
        Inr ([\<lparr>chunk_text = Some ''Hel'', chunk_groundingChunks = None\<rparr>],
             Some (BackendError ''reset'')))\<rparr>"

section \<open>Unfolding sets for the examples\<close>

lemmas ex_defs = ex_state_def ex_conv_def ex_clock_def ex_settings_def ex_file_def

lemmas send_defs = handleSendMessage_def handleSendMessage_begin_def handleSendMessage_resume_def
  sendTry_def dispatch_def currentConversation_def appendMessage_def updateWithUserMessage_def
  userMessageOf_def titleFromText_def substring_0_30_def Let_def

section \<open>Lemmas on the service\<close>

lemma fileParts_ok:
  "list_all2 (\<lambda>f d. fileDataPart f = Inr d) fs ds \<Longrightarrow>
     fileParts fs = Inr (concat (map (\<lambda>(f, d). [TextPart (filePreface f), d]) (zip fs ds)))"
  by (induction fs ds rule: list_all2_induct) simp_all

lemma length_interleaved:
  "length fs = length ds \<Longrightarrow>
     length (concat (map (\<lambda>(f, d). [TextPart (filePreface f), d]) (zip fs ds))) = 2 * length fs"
  by (induction fs ds rule: list_induct2) simp_all

lemma fileParts_raises:
  "fileDataPart f = Inl e \<Longrightarrow> f \<in> set fs \<Longrightarrow> \<exists>e'. fileParts fs = Inl e'"
  by (induction fs) (auto split: sum.splits)

lemma split_js_no_separator: "(snd (split_js c s) = []) = (c \<notin> set s)"
  by (induction s) (auto split: prod.splits)

lemma fileDataPart_ok:
  "CHR '':'' \<in> set (fst (split_js CHR '','' (file_data f))) \<Longrightarrow> \<exists>d. fileDataPart f = Inr d"
  using split_js_no_separator [of "CHR '':''" "fst (split_js CHR '','' (file_data f))"]
  by (auto simp: fileDataPart_def split: prod.splits list.splits)

lemma fileDataPart_raises:
  "CHR '':'' \<notin> set (fst (split_js CHR '','' (file_data f))) \<Longrightarrow> fileDataPart f = Inl TypeError"
  using split_js_no_separator [of "CHR '':''" "fst (split_js CHR '','' (file_data f))"]
  by (auto simp: fileDataPart_def split: prod.splits list.splits)

lemma fileParts_total:
  "list_all (\<lambda>f. CHR '':'' \<in> set (fst (split_js CHR '','' (file_data f)))) fs \<Longrightarrow>
     \<exists>ds. list_all2 (\<lambda>f d. fileDataPart f = Inr d) fs ds"
proof (induction fs)
  case Nil
  show ?case by simp
next
  case (Cons f fs)
  then obtain ds where ds: "list_all2 (\<lambda>f d. fileDataPart f = Inr d) fs ds" by auto
  from Cons.prems obtain d where "fileDataPart f = Inr d"
    using fileDataPart_ok [of f] by auto
  with ds have "list_all2 (\<lambda>f d. fileDataPart f = Inr d) (f # fs) (d # ds)" by simp
  then show ?case by blast
qed

lemma fileParts_TypeError:
  "\<not> list_all (\<lambda>f. CHR '':'' \<in> set (fst (split_js CHR '','' (file_data f)))) fs \<Longrightarrow>
     fileParts fs = Inl TypeError"
proof (induction fs)
  case Nil
  then show ?case by simp
next
  case (Cons f fs)
  show ?case
  proof (cases "CHR '':'' \<in> set (fst (split_js CHR '','' (file_data f)))")
    case True
    with Cons.prems have "fileParts fs = Inl TypeError" by (simp add: Cons.IH)
    moreover from True obtain d where "fileDataPart f = Inr d"
      using fileDataPart_ok [of f] by auto
    ultimately show ?thesis by simp
  next
    case False
    then show ?thesis by (simp add: fileDataPart_raises)
  qed
qed

text \<open>
  A user turn with an attachment whose data string has no colon before its
  first comma is not projected: the callback throws.
\<close>

lemma messageToContent_malformed:
  assumes "msg_role m = User" and "msg_files m = Some fs"
    and "\<not> list_all (\<lambda>f. CHR '':'' \<in> set (fst (split_js CHR '','' (file_data f)))) fs"
  shows "messageToContent m = Inl TypeError"
proof -
  from assms(3) have "fileParts fs = Inl TypeError" by (rule fileParts_TypeError)
  moreover from assms(3) obtain f fs' where "fs = f # fs'" by (cases fs) auto
  ultimately show ?thesis
    using assms(1,2) by (simp add: messageToContent_def)
qed

lemma mapHistory_pointwise:
  "(mapHistoryToGenAI history = Inr cs) = list_all2 (\<lambda>m c. messageToContent m = Inr c) history cs"
proof (induction history arbitrary: cs)
  case Nil
  show ?case by auto
next
  case (Cons m history)
  show ?case
    by (cases cs) (auto simp: Cons.IH [symmetric] split: sum.splits)
qed

lemma ex_file_part: "fileDataPart ex_file = Inr (InlineData ''image/png'' (Some ''AAAA''))"
  by (simp add: fileDataPart_def ex_file_def)

lemma ex_doc_part: "fileDataPart ex_doc = Inr (InlineData ''text/plain'' (Some ''aGk=''))"
  by (simp add: fileDataPart_def ex_doc_def)

text \<open>
  A data string with no colon before its first comma makes the projection of
  the whole history throw.
\<close>

lemma malformed_attachment_raises:
  "mapHistoryToGenAI [ex_user_turn\<lparr>msg_files := Some [ex_file\<lparr>file_data := ''AAAA''\<rparr>]\<rparr>]
     = Inl TypeError"
  by (simp add: messageToContent_def ex_user_turn_def fileDataPart_def)

section \<open>Lemmas on the store\<close>

lemma appendMessage_absent:
  "convId \<notin> conv_id ` set prev \<Longrightarrow> appendMessage convId m prev = prev"
  by (induction prev) (auto simp: appendMessage_def)

lemma patchStreaming_absent:
  "convId \<notin> conv_id ` set prev \<Longrightarrow> patchStreaming convId msgId streamedText gcs prev = prev"
  by (induction prev) (auto simp: patchStreaming_def)

lemma streamLoop_absent:
  "convId \<notin> conv_id ` set prev \<Longrightarrow> snd (streamLoop convId mm chunks acc prev) = prev"
  by (induction chunks arbitrary: acc) (simp_all add: Let_def patchStreaming_absent)

lemma deleted_absent:
  "i \<notin> conv_id ` set (conversations (handleDeleteConversation i st))"
  by (auto simp: handleDeleteConversation_def)

lemma sendTry_absent:
  "convId \<notin> conv_id ` set prev \<Longrightarrow> ctx_convId ctx = convId \<Longrightarrow>
     fst (sendTry be clock settings ctx prev) = prev"
  by (auto simp: sendTry_def appendMessage_absent streamLoop_absent
      split: ServiceCall.splits sum.splits prod.splits)

lemma find_map_same:
  "(\<And>x. P (g x) = P x) \<Longrightarrow> find P (map g xs) = map_option g (find P xs)"
  by (induction xs) simp_all

lemma find_appendMessage:
  "find (\<lambda>c. conv_id c = i) (appendMessage convId m prev)
     = map_option (\<lambda>c. if conv_id c = convId then c\<lparr>messages := messages c @ [m]\<rparr> else c)
         (find (\<lambda>c. conv_id c = i) prev)"
  unfolding appendMessage_def by (rule find_map_same) simp

lemma find_updateWithUserMessage:
  "find (\<lambda>c. conv_id c = i) (map (updateWithUserMessage convId um text) prev)
     = map_option (updateWithUserMessage convId um text) (find (\<lambda>c. conv_id c = i) prev)"
  by (rule find_map_same) (simp add: updateWithUserMessage_def)

lemma find_conv_id: "find (\<lambda>c. conv_id c = i) xs = Some c \<Longrightarrow> conv_id c = i"
  by (induction xs) (auto split: if_splits)

lemma currentConversation_id:
  "currentConversation st = Some c \<Longrightarrow> currentConversationId st = Some (conv_id c)"
  by (auto simp: currentConversation_def split: option.splits dest: find_conv_id)

lemma currentConversation_find:
  "currentConversation st = Some c \<Longrightarrow>
     find (\<lambda>x. conv_id x = conv_id c) (conversations st) = Some c"
  by (auto simp: currentConversation_def split: option.splits dest: find_conv_id)

lemma ex_current: "currentConversation ex_state = Some ex_conv"
  by (simp add: currentConversation_def ex_state_def ex_conv_def)

section \<open>Lemmas on the handlers\<close>

text \<open>The locals that the rest of \<open>handleSendMessage\<close> closes over.\<close>

lemma begin_ctx:
  "snd (handleSendMessage_begin clock text files sendMode st) =
     \<lparr>ctx_convId = (case currentConversation st of Some c \<Rightarrow> conv_id c
                      | None \<Rightarrow> ''conv-'' @ string_of_nat (t_conv clock)),
      ctx_history = (case currentConversation st of Some c \<Rightarrow> messages c | None \<Rightarrow> []),
      ctx_text = text, ctx_files = files, ctx_sendMode = sendMode\<rparr>"
  by (simp add: handleSendMessage_begin_def Let_def split: option.splits)

text \<open>The conversation shown while the call is in flight, in image mode and in the others.\<close>

lemma begin_current_image:
  "currentConversation (fst (handleSendMessage_begin clock text files Image st))
     = Some (case currentConversation st of
               None \<Rightarrow> \<lparr>conv_id = ''conv-'' @ string_of_nat (t_conv clock), title = titleFromText text,
                         messages = [userMessageOf clock text files], createdAt = d_conv clock\<rparr>
             | Some c \<Rightarrow> updateWithUserMessage (conv_id c) (userMessageOf clock text files) text c)"
proof (cases "currentConversation st")
  case None
  then show ?thesis
    by (simp add: handleSendMessage_begin_def Let_def currentConversation_def)
next
  case (Some c)
  then show ?thesis
    using currentConversation_id [OF Some] currentConversation_find [OF Some]
    by (simp add: handleSendMessage_begin_def Let_def currentConversation_def
        find_updateWithUserMessage)
qed

lemma begin_current_stream:
  assumes "sendMode \<noteq> Image"
  shows "currentConversation (fst (handleSendMessage_begin clock text files sendMode st))
     = Some (case currentConversation st of
               None \<Rightarrow> \<lparr>conv_id = ''conv-'' @ string_of_nat (t_conv clock), title = titleFromText text,
                         messages = [userMessageOf clock text files, streamingModelMessage clock],
                         createdAt = d_conv clock\<rparr>
             | Some c \<Rightarrow> (updateWithUserMessage (conv_id c) (userMessageOf clock text files) text c)
                 \<lparr>messages := messages c @ [userMessageOf clock text files, streamingModelMessage clock]\<rparr>)"
proof (cases "currentConversation st")
  case None
  with assms show ?thesis
    by (simp add: handleSendMessage_begin_def Let_def currentConversation_def appendMessage_def)
next
  case (Some c)
  with assms show ?thesis
    using currentConversation_id [OF Some] currentConversation_find [OF Some]
    by (simp add: handleSendMessage_begin_def Let_def currentConversation_def
        find_updateWithUserMessage find_appendMessage updateWithUserMessage_def)
qed

lemma titleFromText_eq:
  "titleFromText text = (if text = [] then ''New Conversation'' else take 30 text)"
  by (simp add: titleFromText_def substring_0_30_def)

lemma begin_isThinking:
  "isThinking (fst (handleSendMessage_begin clock text files sendMode st))"
  by (simp add: handleSendMessage_begin_def Let_def)

lemma resume_isThinking:
  "\<not> isThinking (handleSendMessage_resume be clock settings ctx st')"
  by (simp add: handleSendMessage_resume_def split: prod.splits option.splits)

lemma edit_resume_isThinking:
  "\<not> isThinking (handleEditImage_resume be clock convId prompt fileToEdit st')"
  by (simp add: handleEditImage_resume_def split: prod.splits sum.splits)

lemma patch_patch:
  "patchStreaming convId msgId t2 g2 (patchStreaming convId msgId t1 g1 prev)
     = patchStreaming convId msgId t2 g2 prev"
  by (simp add: patchStreaming_def comp_def cong: if_cong)

lemma streamLoop_text:
  "fst (streamLoop convId mm chunks acc prev)
     = acc @ concat (map (\<lambda>ch. js_concat_text (chunk_text ch)) chunks)"
  by (induction chunks arbitrary: acc prev) (simp_all add: Let_def)

lemma streamLoop_last_fragment:
  "chunks \<noteq> [] \<Longrightarrow>
   snd (streamLoop convId mm chunks acc prev)
     = patchStreaming convId (msg_id mm)
         (acc @ concat (map (\<lambda>ch. js_concat_text (chunk_text ch)) chunks))
         (case chunk_groundingChunks (last chunks) of
            Some g \<Rightarrow> Some g | None \<Rightarrow> groundingChunks mm)
         prev"
proof (induction chunks arbitrary: acc prev)
  case Nil
  then show ?case by simp
next
  case (Cons ch chunks)
  show ?case
  proof (cases "chunks = []")
    case True
    then show ?thesis by (simp add: Let_def)
  next
    case False
    then show ?thesis
      using Cons.IH [OF False] by (simp add: Let_def patch_patch)
  qed
qed

lemma current_appendMessage:
  "currentConversation (st\<lparr>conversations := appendMessage convId m (conversations st),
                            isThinking := b\<rparr>)
     = map_option (\<lambda>c. if conv_id c = convId then c\<lparr>messages := messages c @ [m]\<rparr> else c)
         (currentConversation st)"
  by (simp add: currentConversation_def find_appendMessage split: option.splits)

lemma begin_current_id:
  "currentConversationId (fst (handleSendMessage_begin clock text files sendMode st))
     = Some (ctx_convId (snd (handleSendMessage_begin clock text files sendMode st)))"
  by (auto simp: handleSendMessage_begin_def Let_def split: option.splits
      dest: currentConversation_id)

lemma begin_history:
  "ctx_history (snd (handleSendMessage_begin clock text files sendMode st))
     = (case currentConversation st of None \<Rightarrow> [] | Some c \<Rightarrow> messages c)"
  by (simp add: begin_ctx split: option.splits)

lemma begin_image_messages:
  "map_option (\<lambda>c. (conv_id c, messages c))
     (currentConversation (fst (handleSendMessage_begin clock text files Image st)))
     = Some (ctx_convId (snd (handleSendMessage_begin clock text files Image st)),
             ctx_history (snd (handleSendMessage_begin clock text files Image st))
               @ [userMessageOf clock text files])"
  by (simp add: begin_current_image begin_ctx updateWithUserMessage_def split: option.splits)

lemma resume_generate_ok:
  "dispatch ctx = CallGenerateImage p \<Longrightarrow> generateImage be (t_file clock) p = Inr file \<Longrightarrow>
   handleSendMessage_resume be clock settings ctx st =
     st\<lparr>conversations :=
          appendMessage (ctx_convId ctx) (modelImageMessage clock file) (conversations st),
        isThinking := False\<rparr>"
  by (simp add: handleSendMessage_resume_def sendTry_def)

lemma resume_edit_ok:
  "dispatch ctx = CallEditImage p f \<Longrightarrow>
   editImage be (t_file clock) p f = Inr (responseText, editedFile) \<Longrightarrow>
   handleSendMessage_resume be clock settings ctx st =
     st\<lparr>conversations :=
          appendMessage (ctx_convId ctx) (imageEditModelMessage clock responseText editedFile)
            (conversations st),
        isThinking := False\<rparr>"
  by (simp add: handleSendMessage_resume_def sendTry_def)

lemma dispatch_image_no_files:
  "dispatch (snd (handleSendMessage_begin clock text [] Image st)) = CallGenerateImage text"
  by (simp add: begin_ctx dispatch_def)

lemma dispatch_image_files:
  "dispatch (snd (handleSendMessage_begin clock text (f # rest) Image st))
     = (if take 6 (file_type f) = ''image/'' then CallEditImage text f
        else CallGenerateImage text)"
  by (simp add: begin_ctx dispatch_def)

lemma image_send_messages:
  assumes "handleSendMessage_resume be clock settings
             (snd (handleSendMessage_begin clock text files Image st))
             (fst (handleSendMessage_begin clock text files Image st))
           = (fst (handleSendMessage_begin clock text files Image st))
               \<lparr>conversations :=
                  appendMessage (ctx_convId (snd (handleSendMessage_begin clock text files Image st)))
                    m (conversations (fst (handleSendMessage_begin clock text files Image st))),
                isThinking := False\<rparr>"
  shows "map_option messages
           (currentConversation (handleSendMessage be clock settings text files Image st))
         = Some ((case currentConversation st of None \<Rightarrow> [] | Some c \<Rightarrow> messages c)
                  @ [userMessageOf clock text files, m])"
proof -
  let ?b = "handleSendMessage_begin clock text files Image st"
  obtain c where c: "currentConversation (fst ?b) = Some c"
    and cid: "conv_id c = ctx_convId (snd ?b)"
    and msgs: "messages c = ctx_history (snd ?b) @ [userMessageOf clock text files]"
    using begin_image_messages [of clock "text" files st] by auto
  have "handleSendMessage be clock settings text files Image st
      = handleSendMessage_resume be clock settings (snd ?b) (fst ?b)"
    by (simp add: handleSendMessage_def split: prod.splits)
  with assms c cid msgs show ?thesis
    by (simp add: current_appendMessage begin_history)
qed

lemma generateImage_data:
  "generateImages be imageModel prompt = Inr (bytes # others) \<Longrightarrow>
   map_sum id file_data (generateImage be now prompt) = Inr (''data:image/png;base64,'' @ bytes)"
  by (simp add: generateImage_def)

lemma generateImage_ok:
  assumes "generateImages be imageModel prompt = Inr (bytes # others)"
  shows "\<exists>file. generateImage be now prompt = Inr file
      \<and> file_data file = ''data:image/png;base64,'' @ bytes"
  using generateImage_data [OF assms, of now] by (cases "generateImage be now prompt") auto

lemma editImageParts_text:
  "fst (editImageParts now prompt imageFile ps (acc, img))
     = acc @ concat (map (\<lambda>p. js_text (rp_text p)) ps)"
  by (induction ps arbitrary: acc img) (auto split: option.splits)

lemma editImage_ok:
  assumes "editImage be now prompt imageFile = Inr (responseText, editedFile)"
  shows "\<exists>d ps cands. fileDataPart imageFile = Inr d
           \<and> generateContent be imageEditModel [d, TextPart prompt] = Inr (ps # cands)
           \<and> responseText = concat (map (\<lambda>p. js_text (rp_text p)) ps)"
proof -
  from assms obtain d where d: "fileDataPart imageFile = Inr d"
    by (cases "fileDataPart imageFile") (auto simp: editImage_def editImageRequest_def)
  from assms d obtain cs where cs: "generateContent be imageEditModel [d, TextPart prompt] = Inr cs"
    by (cases "generateContent be imageEditModel [d, TextPart prompt]")
      (auto simp: editImage_def editImageRequest_def)
  from assms d cs obtain ps cands where cands: "cs = ps # cands"
    by (cases cs) (auto simp: editImage_def editImageRequest_def)
  from assms d cs cands
  have "responseText = fst (editImageParts now prompt imageFile ps ([], None))"
    by (auto simp: editImage_def editImageRequest_def split: prod.splits option.splits)
  with d cs cands show ?thesis
    by (auto simp: editImageParts_text)
qed

section \<open>History projection\<close>

text \<open>
  Claim C1.  A user turn with \<open>N \<ge> 1\<close> attachments and non-empty text
  projects to, for each attachment in order, its preface text part and then
  its data part, followed by one text part holding the turn's text:
  \<open>2N + 1\<close> parts.  A model turn, or a user turn with no attachment, projects
  to one text part, and to no part when its text is empty.  The history is
  projected turn by turn, in order.  An attachment here has a data string of
  the form of the data model, a scheme with a colon before the first comma,
  as every data URL has; \<open>messageToContent_malformed\<close> is the other case.
\<close>

theorem history_projection_parts:
  "(msg_role m = User \<and> msg_files m = Some fs \<and> fs \<noteq> [] \<and> msg_text m \<noteq> []
      \<and> list_all (\<lambda>f. CHR '':'' \<in> set (fst (split_js CHR '','' (file_data f)))) fs
    \<longrightarrow> (\<exists>ds. list_all2 (\<lambda>f d. fileDataPart f = Inr d) fs ds
          \<and> messageToContent m =
              Inr \<lparr>role = User,
                   parts = concat (map (\<lambda>(f, d). [TextPart (filePreface f), d]) (zip fs ds))
                             @ [TextPart (msg_text m)]\<rparr>
          \<and> length (concat (map (\<lambda>(f, d). [TextPart (filePreface f), d]) (zip fs ds))
                      @ [TextPart (msg_text m)]) = 2 * length fs + 1))
   \<and> (msg_role m = Model \<or> msg_files m = None \<or> msg_files m = Some []
    \<longrightarrow> messageToContent m =
          Inr \<lparr>role = msg_role m,
               parts = (if msg_text m = [] then [] else [TextPart (msg_text m)])\<rparr>)
   \<and> ((mapHistoryToGenAI history = Inr cs)
        = list_all2 (\<lambda>m c. messageToContent m = Inr c) history cs)"
proof (intro conjI impI)
  assume a: "msg_role m = User \<and> msg_files m = Some fs \<and> fs \<noteq> [] \<and> msg_text m \<noteq> []
      \<and> list_all (\<lambda>f. CHR '':'' \<in> set (fst (split_js CHR '','' (file_data f)))) fs"
  then obtain ds where ds: "list_all2 (\<lambda>f d. fileDataPart f = Inr d) fs ds"
    using fileParts_total by blast
  from a obtain f fs' where fs: "fs = f # fs'" by (cases fs) auto
  from ds have "fileParts fs
      = Inr (concat (map (\<lambda>(f, d). [TextPart (filePreface f), d]) (zip fs ds)))"
    by (rule fileParts_ok)
  with a fs have content: "messageToContent m =
          Inr \<lparr>role = User,
               parts = concat (map (\<lambda>(f, d). [TextPart (filePreface f), d]) (zip fs ds))
                         @ [TextPart (msg_text m)]\<rparr>"
    by (simp add: messageToContent_def)
  from ds have "length fs = length ds" by (rule list_all2_lengthD)
  then have "length (concat (map (\<lambda>(f, d). [TextPart (filePreface f), d]) (zip fs ds))
                    @ [TextPart (msg_text m)]) = 2 * length fs + 1"
    by (simp add: length_interleaved)
  with ds content show "\<exists>ds. list_all2 (\<lambda>f d. fileDataPart f = Inr d) fs ds
          \<and> messageToContent m =
              Inr \<lparr>role = User,
                   parts = concat (map (\<lambda>(f, d). [TextPart (filePreface f), d]) (zip fs ds))
                             @ [TextPart (msg_text m)]\<rparr>
          \<and> length (concat (map (\<lambda>(f, d). [TextPart (filePreface f), d]) (zip fs ds))
                      @ [TextPart (msg_text m)]) = 2 * length fs + 1"
    by blast
next
  assume "msg_role m = Model \<or> msg_files m = None \<or> msg_files m = Some []"
  then show "messageToContent m =
          Inr \<lparr>role = msg_role m,
               parts = (if msg_text m = [] then [] else [TextPart (msg_text m)])\<rparr>"
    by (auto simp: messageToContent_def split: option.splits list.splits)
next
  show "(mapHistoryToGenAI history = Inr cs)
        = list_all2 (\<lambda>m c. messageToContent m = Inr c) history cs"
    by (rule mapHistory_pointwise)
qed

theorem history_projection_parts_witness:
  \<open>list_all (\<lambda>f. CHR '':'' \<in> set (fst (split_js CHR '','' (file_data f)))) [ex_file, ex_doc]
   \<and> messageToContent ex_user_turn =
     Inr \<lparr>role = User,
          parts = [TextPart ''This file, which I've named "my cat", has the original filename "cat.png".'',
                   InlineData ''image/png'' (Some ''AAAA''),
                   TextPart ''This is the file with the original filename "notes.txt".'',
                   InlineData ''text/plain'' (Some ''aGk=''),
                   TextPart ''compare'']\<rparr>
   \<and> messageToContent ex_model_turn = Inr \<lparr>role = Model, parts = [TextPart ''A cat.'']\<rparr>\<close>
  using history_projection_parts [where m = ex_user_turn and fs = "[ex_file, ex_doc]"]
    history_projection_parts [where m = ex_model_turn]
  by (simp add: ex_user_turn_def ex_model_turn_def messageToContent_def fileDataPart_def
      filePreface_def ex_file_def ex_doc_def)

section \<open>Search and attachments\<close>

text \<open>
  Claim C2.  The effective search flag is true exactly when the mode is
  \<^verbatim>\<open>'search'\<close>, or the mode is \<^verbatim>\<open>'default'\<close> and \<^verbatim>\<open>settings.useSearch\<close> is
  true.  The configuration of the request holds the search tool exactly when
  that flag is true and the new turn has no file, and holds no tool
  otherwise; this is the configuration of every request that
  \<open>streamResponse\<close> builds.
\<close>

theorem search_tool_iff_flag_and_no_files:
  "effectiveSearch settings sendMode
     = (sendMode = Search \<or> (sendMode = Default \<and> useSearch settings))
   \<and> (tools (requestConfig settings sendMode files) = Some [GoogleSearch])
       = (effectiveSearch settings sendMode \<and> files = [])
   \<and> (tools (requestConfig settings sendMode files) = None)
       = (\<not> effectiveSearch settings sendMode \<or> files \<noteq> [])
   \<and> (streamRequest history text files settings sendMode = Inr (contents, config)
       \<longrightarrow> config = requestConfig settings sendMode files)"
  by (auto simp: effectiveSearch_def requestConfig_def streamRequest_def Let_def
      split: sum.splits)

theorem search_tool_iff_flag_and_no_files_witness:
  "tools (requestConfig ex_settings Default []) = Some [GoogleSearch]
   \<and> tools (requestConfig ex_settings Default [ex_file]) = None
   \<and> tools (requestConfig ex_settings Search [ex_file]) = None
   \<and> tools (requestConfig ex_settings NoThinking []) = None
   \<and> streamRequest [] ''describe this'' [ex_file] ex_settings Default =
       Inr ([\<lparr>role = User,
              parts = [TextPart (filePreface ex_file), InlineData ''image/png'' (Some ''AAAA''),
                       TextPart ''describe this'']\<rparr>],
            requestConfig ex_settings Default [ex_file])"
  using search_tool_iff_flag_and_no_files [of ex_settings Default "[]"]
    search_tool_iff_flag_and_no_files [of ex_settings Default "[ex_file]" "[]"
      "''describe this''"
      "[\<lparr>role = User,
              parts = [TextPart (filePreface ex_file), InlineData ''image/png'' (Some ''AAAA''),
                       TextPart ''describe this'']\<rparr>]"
      "requestConfig ex_settings Default [ex_file]"]
    search_tool_iff_flag_and_no_files [of ex_settings Search "[ex_file]"]
    search_tool_iff_flag_and_no_files [of ex_settings NoThinking "[]"]
  by (simp add: ex_settings_def streamRequest_def ex_file_part)

section \<open>Grounding references during a stream\<close>

text \<open>
  Claim C3 says that a fragment with no reference list leaves the list of the
  streaming turn as it is.  The loop falls back to
  \<^verbatim>\<open>modelMessage.groundingChunks\<close>, the field of the local object created
  before the stream, which is the empty list for the whole loop: by
  \<open>streamLoop_last_fragment\<close> the turn ends with the list of the last
  fragment, or with the empty list when the last fragment carried none.
  Here the backend sends \<^verbatim>\<open>Hello\<close> with one reference and then \<^verbatim>\<open> world\<close>
  with none, and the turn ends with no reference.
\<close>

theorem fragment_without_references_resets_list:
  "map_option (map (\<lambda>m. (msg_text m, groundingChunks m)) \<circ> messages)
     (currentConversation
        (handleSendMessage ex_backend ex_clock ex_settings ''hi'' [] Search ex_state))
     = Some [(''hi'', None), (''Hello world'', Some [])]"
  by (simp add: send_defs ex_defs ex_backend_def streamResponse_def streamRequest_def
      streamingModelMessage_def patchStreaming_def js_concat_text_def)

section \<open>Failures of the backend\<close>

text \<open>
  Claim C4, as the code has it.  When the service function that a send
  called fails, with whatever error and before or in the middle of a stream,
  the rest of \<open>handleSendMessage\<close> appends one model turn with the text
  \<^verbatim>\<open>Sorry, something went wrong. Please try again.\<close> to every conversation of
  the addressed identifier, on what the store holds at that moment, and
  clears \<open>isThinking\<close>; \<open>handleEditImage\<close> does the same with the text
  \<^verbatim>\<open>Sorry, I couldn't edit that image. Please try again.\<close>  The handlers
  return a state in every case: no error leaves them.
\<close>

theorem failure_appends_one_apology_turn:
  "(dispatch ctx = CallEditImage p f \<and> editImage be (t_file clock) p f = Inl e
      \<longrightarrow> handleSendMessage_resume be clock settings ctx st =
            st\<lparr>conversations :=
                 appendMessage (ctx_convId ctx) (errorBotMessage clock sendErrorMessage)
                   (conversations st),
               isThinking := False\<rparr>)
   \<and> (dispatch ctx = CallGenerateImage p \<and> generateImage be (t_file clock) p = Inl e
      \<longrightarrow> handleSendMessage_resume be clock settings ctx st =
            st\<lparr>conversations :=
                 appendMessage (ctx_convId ctx) (errorBotMessage clock sendErrorMessage)
                   (conversations st),
               isThinking := False\<rparr>)
   \<and> (dispatch ctx = CallStreamResponse h t fs md
        \<and> streamResponse be h t fs settings md = Inl e
      \<longrightarrow> handleSendMessage_resume be clock settings ctx st =
            st\<lparr>conversations :=
                 appendMessage (ctx_convId ctx) (errorBotMessage clock sendErrorMessage)
                   (conversations st),
               isThinking := False\<rparr>)
   \<and> (dispatch ctx = CallStreamResponse h t fs md
        \<and> streamResponse be h t fs settings md = Inr (chunks, Some e)
      \<longrightarrow> handleSendMessage_resume be clock settings ctx st =
            st\<lparr>conversations :=
                 appendMessage (ctx_convId ctx) (errorBotMessage clock sendErrorMessage)
                   (snd (streamLoop (ctx_convId ctx) (streamingModelMessage clock) chunks []
                           (conversations st))),
               isThinking := False\<rparr>)
   \<and> (editImage be (t_file clock) p f = Inl e
      \<longrightarrow> handleEditImage_resume be clock convId p f st =
            st\<lparr>conversations :=
                 appendMessage convId (errorBotMessage clock editErrorMessage) (conversations st),
               isThinking := False\<rparr>)
   \<and> msg_role (errorBotMessage clock errorMessage) = Model
   \<and> msg_text (errorBotMessage clock errorMessage) = errorMessage
   \<and> map (\<lambda>c. length (messages c)) (appendMessage convId m prev)
       = map (\<lambda>c. length (messages c) + (if conv_id c = convId then 1 else 0)) prev"
proof (intro conjI impI)
  show "map (\<lambda>c. length (messages c)) (appendMessage convId m prev)
       = map (\<lambda>c. length (messages c) + (if conv_id c = convId then 1 else 0)) prev"
    by (simp add: appendMessage_def comp_def)
qed (simp_all add: handleSendMessage_resume_def sendTry_def handleEditImage_resume_def
    errorBotMessage_def)

theorem failure_appends_one_apology_turn_witness:
  "dispatch (snd (handleSendMessage_begin ex_clock ''make it blue'' [ex_file] Image ex_state))
     = CallEditImage ''make it blue'' ex_file
   \<and> dispatch (snd (handleSendMessage_begin ex_clock ''a red bicycle'' [] Image ex_state))
     = CallGenerateImage ''a red bicycle''
   \<and> dispatch (snd (handleSendMessage_begin ex_clock ''hi'' [] Default ex_state))
     = CallStreamResponse [] ''hi'' [] Default
   \<and> editImage ex_backend_broken 13 ''make it blue'' ex_file = Inl NoImageReturned
   \<and> generateImage ex_backend_broken 13 ''a red bicycle'' = Inl TypeError
   \<and> streamResponse ex_backend_down [] ''hi'' [] ex_settings Default = Inl (BackendError ''503'')
   \<and> streamResponse ex_backend_broken [] ''hi'' [] ex_settings Default
       = Inr ([\<lparr>chunk_text = Some ''Hel'', chunk_groundingChunks = None\<rparr>],
              Some (BackendError ''reset''))
   \<and> map_option (map msg_text \<circ> messages)
     (currentConversation
        (handleSendMessage ex_backend_broken ex_clock ex_settings ''make it blue'' [ex_file] Image
           ex_state))
     = Some [''make it blue'', ''Sorry, something went wrong. Please try again.'']
   \<and> map_option (map msg_text \<circ> messages)
     (currentConversation
        (handleSendMessage ex_backend_broken ex_clock ex_settings ''a red bicycle'' [] Image
           ex_state))
     = Some [''a red bicycle'', ''Sorry, something went wrong. Please try again.'']
   \<and> map_option (map msg_text \<circ> messages)
     (currentConversation
        (handleSendMessage ex_backend_down ex_clock ex_settings ''hi'' [] Default ex_state))
     = Some [''hi'', [], ''Sorry, something went wrong. Please try again.'']
   \<and> map_option (map msg_text \<circ> messages)
     (currentConversation
        (handleSendMessage ex_backend_broken ex_clock ex_settings ''hi'' [] Default ex_state))
     = Some [''hi'', ''Hel'', ''Sorry, something went wrong. Please try again.'']
   \<and> map_option (map msg_text \<circ> messages)
     (currentConversation
        (handleEditImage ex_backend_broken ex_clock ''make it blue'' ex_file ex_state))
     = Some [''make it blue'', ''Sorry, I couldn't edit that image. Please try again.'']"
  using
    failure_appends_one_apology_turn
      [where ctx = "snd (handleSendMessage_begin ex_clock ''make it blue'' [ex_file] Image ex_state)"
      and p = "''make it blue''" and f = ex_file and be = ex_backend_broken and clock = ex_clock
      and e = NoImageReturned and settings = ex_settings and convId = "''conv-1''"
      and st = "fst (handleSendMessage_begin ex_clock ''make it blue'' [ex_file] Image ex_state)"]
    failure_appends_one_apology_turn
      [where ctx = "snd (handleSendMessage_begin ex_clock ''a red bicycle'' [] Image ex_state)"
      and p = "''a red bicycle''" and be = ex_backend_broken and clock = ex_clock
      and e = TypeError and settings = ex_settings
      and st = "fst (handleSendMessage_begin ex_clock ''a red bicycle'' [] Image ex_state)"]
    failure_appends_one_apology_turn
      [where ctx = "snd (handleSendMessage_begin ex_clock ''hi'' [] Default ex_state)"
      and h = "[]" and t = "''hi''" and fs = "[]" and md = Default
      and be = ex_backend_down and clock = ex_clock
      and e = "BackendError ''503''" and settings = ex_settings
      and st = "fst (handleSendMessage_begin ex_clock ''hi'' [] Default ex_state)"]
    failure_appends_one_apology_turn
      [where ctx = "snd (handleSendMessage_begin ex_clock ''hi'' [] Default ex_state)"
      and h = "[]" and t = "''hi''" and fs = "[]" and md = Default
      and be = ex_backend_broken and clock = ex_clock
      and chunks = "[\<lparr>chunk_text = Some ''Hel'', chunk_groundingChunks = None\<rparr>]"
      and e = "BackendError ''reset''" and settings = ex_settings
      and st = "fst (handleSendMessage_begin ex_clock ''hi'' [] Default ex_state)"]
  by (simp add: send_defs ex_defs ex_backend_down_def ex_backend_broken_def editImage_def
      editImageRequest_def fileDataPart_def errorBotMessage_def sendErrorMessage_def
      editErrorMessage_def handleEditImage_def handleEditImage_begin_def
      handleEditImage_resume_def generateImage_def streamResponse_def streamRequest_def
      streamingModelMessage_def patchStreaming_def js_text_def js_concat_text_def)

text \<open>
  The claim as the specification states it, one string for all send paths:
  with the backend down, the image edit sent through \<open>handleSendMessage\<close>
  and the one sent through \<open>handleEditImage\<close> end with different texts.
\<close>

theorem apology_text_differs_between_handlers_counterexample:
  "map_option (map msg_text \<circ> messages)
     (currentConversation
        (handleSendMessage ex_backend_down ex_clock ex_settings ''make it blue'' [ex_file] Image
           ex_state))
     = Some [''make it blue'', ''Sorry, something went wrong. Please try again.'']
   \<and> map_option (map msg_text \<circ> messages)
     (currentConversation
        (handleEditImage ex_backend_down ex_clock ''make it blue'' ex_file ex_state))
     = Some [''make it blue'', ''Sorry, I couldn't edit that image. Please try again.'']
   \<and> map_option (map msg_text \<circ> messages)
     (currentConversation
        (handleSendMessage ex_backend_down ex_clock ex_settings ''make it blue'' [ex_file] Image
           ex_state))
     \<noteq> map_option (map msg_text \<circ> messages)
     (currentConversation
        (handleEditImage ex_backend_down ex_clock ''make it blue'' ex_file ex_state))"
  by (simp add: send_defs ex_defs ex_backend_down_def editImage_def editImageRequest_def
      fileDataPart_def errorBotMessage_def sendErrorMessage_def editErrorMessage_def
      handleEditImage_def handleEditImage_begin_def handleEditImage_resume_def)

section \<open>Patches after a deletion\<close>

text \<open>
  Claim C5.  A streaming patch addressed to a conversation that is not in
  the store leaves the conversation list as it is, and so does the whole
  loop over the fragments; the model has no error to raise there.  After
  \<open>handleDeleteConversation i\<close> no conversation has the identifier \<open>i\<close>, so
  every later patch for \<open>i\<close>, and the rest of a send that addresses \<open>i\<close>,
  whatever the backend answers, leave the list unchanged.
\<close>

theorem patch_of_deleted_conversation_is_noop:
  "(convId \<notin> conv_id ` set prev \<longrightarrow>
      patchStreaming convId msgId streamedText gcs prev = prev
      \<and> snd (streamLoop convId mm chunks acc prev) = prev)
   \<and> patchStreaming i msgId streamedText gcs (conversations (handleDeleteConversation i st))
       = conversations (handleDeleteConversation i st)
   \<and> snd (streamLoop i mm chunks acc (conversations (handleDeleteConversation i st)))
       = conversations (handleDeleteConversation i st)
   \<and> conversations (handleSendMessage_resume be clock settings ctx
        (handleDeleteConversation (ctx_convId ctx) st))
       = conversations (handleDeleteConversation (ctx_convId ctx) st)"
proof (intro conjI impI)
  show "conversations (handleSendMessage_resume be clock settings ctx
        (handleDeleteConversation (ctx_convId ctx) st))
       = conversations (handleDeleteConversation (ctx_convId ctx) st)"
  proof -
    let ?prev = "conversations (handleDeleteConversation (ctx_convId ctx) st)"
    have absent: "ctx_convId ctx \<notin> conv_id ` set ?prev"
      by (rule deleted_absent)
    then have "fst (sendTry be clock settings ctx ?prev) = ?prev"
      by (rule sendTry_absent) simp
    with absent show ?thesis
      by (auto simp: handleSendMessage_resume_def appendMessage_absent
          split: prod.splits option.splits)
  qed
qed (simp_all add: patchStreaming_absent streamLoop_absent deleted_absent)

theorem patch_of_deleted_conversation_is_noop_witness:
  "''conv-1'' \<notin> conv_id ` set (conversations (handleDeleteConversation ''conv-1'' ex_state))
   \<and> patchStreaming ''conv-1'' ''msg-12-bot'' ''Hello'' (Some [ex_ref])
        (conversations (handleDeleteConversation ''conv-1'' ex_state)) = []
   \<and> conversations (handleSendMessage_resume ex_backend ex_clock ex_settings
        \<lparr>ctx_convId = ''conv-1'', ctx_history = [], ctx_text = ''hi'', ctx_files = [],
         ctx_sendMode = Default\<rparr>
        (handleDeleteConversation ''conv-1'' ex_state)) = []"
  using patch_of_deleted_conversation_is_noop [where convId = "''conv-1''"
      and prev = "conversations (handleDeleteConversation ''conv-1'' ex_state)"
      and msgId = "''msg-12-bot''" and streamedText = "''Hello''" and gcs = "Some [ex_ref]"
      and mm = "streamingModelMessage ex_clock" and chunks = "[]" and acc = "[]"
      and i = "''conv-1''" and be = ex_backend and clock = ex_clock and settings = ex_settings
      and ctx = "\<lparr>ctx_convId = ''conv-1'', ctx_history = [], ctx_text = ''hi'', ctx_files = [],
         ctx_sendMode = Default\<rparr>"
      and st = ex_state]
  by (simp add: handleDeleteConversation_def ex_state_def ex_conv_def)

section \<open>Text to image\<close>

text \<open>
  Claim C6.  A send in image mode with no file calls \<open>generateImage\<close> with
  the text of the send as the prompt.  While that call is in flight the
  conversation holds its former turns and the user turn, and no model turn
  of this send.  When the backend returns an image, the send ends with one
  more turn: a model turn with empty text and exactly one attachment, the
  generated file.
\<close>

theorem text_to_image_send:
  "dispatch (snd (handleSendMessage_begin clock userText [] Image st))
     = CallGenerateImage userText
   \<and> map_option messages
        (currentConversation (fst (handleSendMessage_begin clock userText [] Image st)))
       = Some ((case currentConversation st of None \<Rightarrow> [] | Some c \<Rightarrow> messages c)
                @ [userMessageOf clock userText []])
   \<and> (generateImages be imageModel userText = Inr (bytes # others) \<longrightarrow>
        (\<exists>file. generateImage be (t_file clock) userText = Inr file
           \<and> file_data file = ''data:image/png;base64,'' @ bytes
           \<and> map_option messages
                (currentConversation (handleSendMessage be clock settings userText [] Image st))
               = Some ((case currentConversation st of None \<Rightarrow> [] | Some c \<Rightarrow> messages c)
                        @ [userMessageOf clock userText [], modelImageMessage clock file])
           \<and> msg_role (modelImageMessage clock file) = Model
           \<and> msg_text (modelImageMessage clock file) = []
           \<and> msg_files (modelImageMessage clock file) = Some [file]))"
proof (intro conjI impI)
  show "dispatch (snd (handleSendMessage_begin clock userText [] Image st))
      = CallGenerateImage userText"
    by (rule dispatch_image_no_files)
next
  show "map_option messages
        (currentConversation (fst (handleSendMessage_begin clock userText [] Image st)))
       = Some ((case currentConversation st of None \<Rightarrow> [] | Some c \<Rightarrow> messages c)
                @ [userMessageOf clock userText []])"
    using begin_image_messages [of clock userText "[]" st] by (auto simp: begin_history)
next
  assume "generateImages be imageModel userText = Inr (bytes # others)"
  then obtain gf where gen: "generateImage be (t_file clock) userText = Inr gf"
    and data: "file_data gf = ''data:image/png;base64,'' @ bytes"
    using generateImage_ok by blast
  have "map_option messages
          (currentConversation (handleSendMessage be clock settings userText [] Image st))
        = Some ((case currentConversation st of None \<Rightarrow> [] | Some c \<Rightarrow> messages c)
                 @ [userMessageOf clock userText [], modelImageMessage clock gf])"
    by (rule image_send_messages) (rule resume_generate_ok [OF dispatch_image_no_files gen])
  with gen data show "\<exists>file. generateImage be (t_file clock) userText = Inr file
           \<and> file_data file = ''data:image/png;base64,'' @ bytes
           \<and> map_option messages
                (currentConversation (handleSendMessage be clock settings userText [] Image st))
               = Some ((case currentConversation st of None \<Rightarrow> [] | Some c \<Rightarrow> messages c)
                        @ [userMessageOf clock userText [], modelImageMessage clock file])
           \<and> msg_role (modelImageMessage clock file) = Model
           \<and> msg_text (modelImageMessage clock file) = []
           \<and> msg_files (modelImageMessage clock file) = Some [file]"
    by (auto simp: modelImageMessage_def)
qed

theorem text_to_image_send_witness:
  "generateImages ex_backend imageModel ''a red bicycle'' = Inr [''QUJD'']
   \<and> map_option (map (\<lambda>m. (msg_role m, msg_text m, map_option (map file_data) (msg_files m)))
               \<circ> messages)
     (currentConversation
        (handleSendMessage ex_backend ex_clock ex_settings ''a red bicycle'' [] Image ex_state))
   = Some [(User, ''a red bicycle'', Some []),
           (Model, [], Some [''data:image/png;base64,QUJD''])]"
  using text_to_image_send [where clock = ex_clock and userText = "''a red bicycle''"
      and st = ex_state and be = ex_backend and bytes = "''QUJD''" and others = "[]" and settings = ex_settings]
  by (simp add: ex_backend_def)
    (simp add: send_defs ex_defs ex_backend_def generateImage_def modelImageMessage_def)

section \<open>The title of a conversation\<close>

text \<open>
  Claim C7, as the code has it.  When \<open>handleSendMessage\<close> finds no current
  conversation, or a current conversation with no turn, the conversation gets
  as title the first 30 characters of the text of the turn, and
  \<^verbatim>\<open>'New Conversation'\<close> when that text is empty; a conversation that has a
  turn keeps its title.  The text \<^verbatim>\<open>Explain quantum tunneling in simple terms\<close>
  gives the title \<^verbatim>\<open>Explain quantum tunneling in s\<close>.
\<close>

theorem first_turn_title:
  "((case currentConversation st of None \<Rightarrow> True | Some c \<Rightarrow> messages c = []) \<longrightarrow>
      map_option title
        (currentConversation (fst (handleSendMessage_begin clock userText files sendMode st)))
        = Some (if userText = [] then ''New Conversation'' else take 30 userText))
   \<and> (currentConversation st = Some c \<and> messages c \<noteq> [] \<longrightarrow>
      map_option title
        (currentConversation (fst (handleSendMessage_begin clock userText files sendMode st)))
        = Some (title c))
   \<and> titleFromText ''Explain quantum tunneling in simple terms''
       = ''Explain quantum tunneling in s''"
proof (intro conjI impI)
  assume "currentConversation st = Some c \<and> messages c \<noteq> []"
  then show "map_option title
        (currentConversation (fst (handleSendMessage_begin clock userText files sendMode st)))
        = Some (title c)"
    by (cases "sendMode = Image")
      (simp_all add: begin_current_image begin_current_stream updateWithUserMessage_def)
next
  assume a: "case currentConversation st of None \<Rightarrow> True | Some c \<Rightarrow> messages c = []"
  show "map_option title
        (currentConversation (fst (handleSendMessage_begin clock userText files sendMode st)))
        = Some (if userText = [] then ''New Conversation'' else take 30 userText)"
  proof (cases "sendMode = Image")
    case True
    with a show ?thesis
      by (simp add: begin_current_image updateWithUserMessage_def titleFromText_eq
          split: option.splits)
  next
    case False
    with a show ?thesis
      by (simp add: begin_current_stream updateWithUserMessage_def titleFromText_eq
          split: option.splits)
  qed
next
  show "titleFromText ''Explain quantum tunneling in simple terms''
       = ''Explain quantum tunneling in s''"
    by (simp add: titleFromText_def substring_0_30_def)
qed

theorem first_turn_title_witness:
  "(case currentConversation ex_state of None \<Rightarrow> True | Some c \<Rightarrow> messages c = [])
   \<and> map_option title
     (currentConversation
        (fst (handleSendMessage_begin ex_clock ''Explain quantum tunneling in simple terms'' []
                Default ex_state)))
     = Some ''Explain quantum tunneling in s''
   \<and> map_option title
     (currentConversation
        (fst (handleSendMessage_begin ex_clock ''Explain quantum tunneling in simple terms'' []
                Default \<lparr>conversations = [], currentConversationId = None, isThinking = False\<rparr>)))
     = Some ''Explain quantum tunneling in s''
   \<and> map_option title
     (currentConversation
        (fst (handleSendMessage_begin ex_clock ''Explain quantum tunneling in simple terms'' []
                Default \<lparr>conversations = [ex_conv\<lparr>messages := [ex_user_turn]\<rparr>],
                  currentConversationId = Some ''conv-1'', isThinking = False\<rparr>)))
     = Some ''New Conversation''"
  using first_turn_title [where st = ex_state and clock = ex_clock
      and userText = "''Explain quantum tunneling in simple terms''"
      and files = "[]" and sendMode = Default
      and c = "ex_conv\<lparr>messages := [ex_user_turn]\<rparr>"]
    first_turn_title [where clock = ex_clock
      and userText = "''Explain quantum tunneling in simple terms''" and files = "[]" and sendMode = Default
      and st = "\<lparr>conversations = [], currentConversationId = None, isThinking = False\<rparr>"]
    first_turn_title [where clock = ex_clock
      and userText = "''Explain quantum tunneling in simple terms''" and files = "[]" and sendMode = Default
      and st = "\<lparr>conversations = [ex_conv\<lparr>messages := [ex_user_turn]\<rparr>],
         currentConversationId = Some ''conv-1'', isThinking = False\<rparr>"
      and c = "ex_conv\<lparr>messages := [ex_user_turn]\<rparr>"]
  by (simp add: currentConversation_def ex_state_def ex_conv_def)

text \<open>
  The claim as the specification states it: the title of the example is not
  the 32-character string \<^verbatim>\<open>Explain quantum tunneling in sim\<close>.
\<close>

theorem first_turn_title_counterexample:
  "map_option title
     (currentConversation
        (fst (handleSendMessage_begin ex_clock ''Explain quantum tunneling in simple terms'' []
                Default ex_state)))
     \<noteq> Some ''Explain quantum tunneling in sim''"
  by (simp add: begin_current_stream ex_current updateWithUserMessage_def ex_conv_def
      titleFromText_def substring_0_30_def)

section \<open>Response in flight\<close>

text \<open>
  Claim C8.  \<open>isThinking\<close> is true in the state a send leaves before it
  waits for the backend, and false in the state it leaves when it settles,
  whatever the backend answers and whatever happened to the store in
  between: for \<open>handleSendMessage\<close> in every mode, and for
  \<open>handleEditImage\<close> whenever it sends, that is, when there is a current
  conversation.
\<close>

theorem response_in_flight_set_then_cleared:
  "isThinking (fst (handleSendMessage_begin clock text files sendMode st))
   \<and> \<not> isThinking (handleSendMessage_resume be clock settings ctx st')
   \<and> \<not> isThinking (handleSendMessage be clock settings text files sendMode st)
   \<and> (handleEditImage_begin clock prompt fileToEdit st = Some (st1, convId) \<longrightarrow>
        isThinking st1
        \<and> \<not> isThinking (handleEditImage_resume be clock convId prompt fileToEdit st')
        \<and> \<not> isThinking (handleEditImage be clock prompt fileToEdit st))"
proof (intro conjI impI)
  show "\<not> isThinking (handleSendMessage be clock settings text files sendMode st)"
    by (simp add: handleSendMessage_def resume_isThinking split: prod.splits)
next
  assume a: "handleEditImage_begin clock prompt fileToEdit st = Some (st1, convId)"
  then show "isThinking st1"
    by (auto simp: handleEditImage_begin_def split: option.splits)
  from a show "\<not> isThinking (handleEditImage be clock prompt fileToEdit st)"
    by (simp add: handleEditImage_def edit_resume_isThinking)
qed (simp_all add: begin_isThinking resume_isThinking edit_resume_isThinking)

theorem response_in_flight_set_then_cleared_witness:
  "handleEditImage_begin ex_clock ''make it blue'' ex_file ex_state
     = Some (\<lparr>conversations =
                [ex_conv\<lparr>messages := [userMessageOf ex_clock ''make it blue'' [ex_file]]\<rparr>],
              currentConversationId = Some ''conv-1'', isThinking = True\<rparr>, ''conv-1'')
   \<and> \<not> isThinking (handleEditImage ex_backend_down ex_clock ''make it blue'' ex_file ex_state)
   \<and> \<not> isThinking (handleSendMessage ex_backend_down ex_clock ex_settings ''hi'' [] Default
          ex_state)"
  using response_in_flight_set_then_cleared [where clock = ex_clock and files = "[]"
      and sendMode = Default and st = ex_state and be = ex_backend_down
      and settings = ex_settings and prompt = "''make it blue''" and fileToEdit = ex_file
      and ctx = "\<lparr>ctx_convId = ''conv-1'', ctx_history = [], ctx_text = ''hi'', ctx_files = [],
         ctx_sendMode = Default\<rparr>"
      and st' = ex_state
      and ?st1.0 = "\<lparr>conversations =
                [ex_conv\<lparr>messages := [userMessageOf ex_clock ''make it blue'' [ex_file]]\<rparr>],
              currentConversationId = Some ''conv-1'', isThinking = True\<rparr>"
      and convId = "''conv-1''"]
  by (simp add: handleEditImage_begin_def ex_current appendMessage_def)
    (simp add: ex_state_def ex_conv_def)

section \<open>Image to image\<close>

text \<open>
  Claim C9.  A send in image mode whose first file has a media type that
  starts with \<^verbatim>\<open>image/\<close> calls \<open>editImage\<close> with the text and that first
  file.  The request of \<open>editImage\<close> holds the data part of that file and
  the text, and nothing of the other files.  When \<open>editImage\<close> returns, its
  text is the text parts of the first candidate of the response put
  together, and the send ends with one more turn: a model turn with that
  text and exactly one attachment, the edited file.  When the first file is
  not an image, the send calls \<open>generateImage\<close> with the text.
\<close>

theorem image_to_image_send:
  "(take 6 (file_type f) = ''image/'' \<longrightarrow>
      dispatch (snd (handleSendMessage_begin clock userText (f # rest) Image st))
        = CallEditImage userText f
      \<and> editImageRequest userText f
          = (case fileDataPart f of Inl e \<Rightarrow> Inl e | Inr d \<Rightarrow> Inr [d, TextPart userText])
      \<and> (editImage be (t_file clock) userText f = Inr (responseText, editedFile) \<longrightarrow>
           (\<exists>d ps cands. fileDataPart f = Inr d
              \<and> generateContent be imageEditModel [d, TextPart userText] = Inr (ps # cands)
              \<and> responseText = concat (map (\<lambda>p. js_text (rp_text p)) ps))
           \<and> map_option messages
                (currentConversation
                   (handleSendMessage be clock settings userText (f # rest) Image st))
               = Some ((case currentConversation st of None \<Rightarrow> [] | Some c \<Rightarrow> messages c)
                        @ [userMessageOf clock userText (f # rest),
                           imageEditModelMessage clock responseText editedFile])
           \<and> msg_role (imageEditModelMessage clock responseText editedFile) = Model
           \<and> msg_text (imageEditModelMessage clock responseText editedFile) = responseText
           \<and> msg_files (imageEditModelMessage clock responseText editedFile)
               = Some [editedFile]))
   \<and> (take 6 (file_type f) \<noteq> ''image/'' \<longrightarrow>
      dispatch (snd (handleSendMessage_begin clock userText (f # rest) Image st))
        = CallGenerateImage userText)"
proof (intro conjI impI)
  assume img: "take 6 (file_type f) = ''image/''"
  then show d: "dispatch (snd (handleSendMessage_begin clock userText (f # rest) Image st))
        = CallEditImage userText f"
    by (simp add: dispatch_image_files)
  show "editImageRequest userText f
          = (case fileDataPart f of Inl e \<Rightarrow> Inl e | Inr d \<Rightarrow> Inr [d, TextPart userText])"
    by (simp add: editImageRequest_def)
  assume ok: "editImage be (t_file clock) userText f = Inr (responseText, editedFile)"
  then show "\<exists>d ps cands. fileDataPart f = Inr d
              \<and> generateContent be imageEditModel [d, TextPart userText] = Inr (ps # cands)
              \<and> responseText = concat (map (\<lambda>p. js_text (rp_text p)) ps)"
    by (rule editImage_ok)
  show "map_option messages
                (currentConversation
                   (handleSendMessage be clock settings userText (f # rest) Image st))
               = Some ((case currentConversation st of None \<Rightarrow> [] | Some c \<Rightarrow> messages c)
                        @ [userMessageOf clock userText (f # rest),
                           imageEditModelMessage clock responseText editedFile])"
    by (rule image_send_messages) (rule resume_edit_ok [OF d ok])
next
  assume "take 6 (file_type f) \<noteq> ''image/''"
  then show "dispatch (snd (handleSendMessage_begin clock userText (f # rest) Image st))
        = CallGenerateImage userText"
    by (simp add: dispatch_image_files)
qed (simp_all add: imageEditModelMessage_def)

theorem image_to_image_send_witness:
  "take 6 (file_type ex_file) = ''image/'' \<and> take 6 (file_type ex_doc) \<noteq> ''image/''
   \<and> editImage ex_backend (t_file ex_clock) ''make it blue'' ex_file
       = Inr (''Done.'',
              \<lparr>file_id = ''img-edit-13'', file_name = ''edited_cat.png'',
               file_type = ''image/png'', file_size = 4,
               file_data = ''data:image/png;base64,WFla'',
               file_description = Some (''Edited image for prompt: '' @ [CHR 0x22]
                 @ ''make it blue'' @ [CHR 0x22])\<rparr>)
   \<and> map_option (map (\<lambda>m. (msg_role m, msg_text m, map_option (map file_data) (msg_files m)))
               \<circ> messages)
     (currentConversation
        (handleSendMessage ex_backend ex_clock ex_settings ''make it blue'' [ex_file, ex_doc]
           Image ex_state))
   = Some [(User, ''make it blue'',
            Some [''data:image/png;base64,AAAA'', ''data:text/plain;base64,aGk='']),
           (Model, ''Done.'', Some [''data:image/png;base64,WFla''])]
   \<and> editImageRequest ''make it blue'' ex_file
       = Inr [InlineData ''image/png'' (Some ''AAAA''), TextPart ''make it blue'']
   \<and> dispatch (snd (handleSendMessage_begin ex_clock ''make it blue'' [ex_doc, ex_file] Image
                      ex_state))
       = CallGenerateImage ''make it blue''"
  using image_to_image_send [where f = ex_file and rest = "[ex_doc]" and clock = ex_clock
      and userText = "''make it blue''" and st = ex_state and be = ex_backend
      and settings = ex_settings and responseText = "''Done.''"
      and editedFile = "\<lparr>file_id = ''img-edit-13'', file_name = ''edited_cat.png'',
         file_type = ''image/png'', file_size = 4, file_data = ''data:image/png;base64,WFla'',
         file_description = Some (''Edited image for prompt: '' @ [CHR 0x22] @ ''make it blue''
           @ [CHR 0x22])\<rparr>"]
    image_to_image_send [where f = ex_doc and rest = "[ex_file]" and clock = ex_clock
      and userText = "''make it blue''" and st = ex_state]
  by (simp add: send_defs ex_defs ex_doc_def ex_backend_def editImage_def editImageRequest_def
      fileDataPart_def imageEditModelMessage_def js_text_def digit_char_def)

section \<open>Deleting a conversation\<close>

text \<open>
  Claim C10.  Deleting the active conversation makes the first conversation
  that remains in the list the active one, and leaves no active
  conversation when none remains; deleting any other conversation leaves the
  active identifier as it was.  The list that remains is the old one without
  the conversations of the deleted identifier.
\<close>

theorem delete_reassigns_active_conversation:
  "(currentConversationId st = Some i \<longrightarrow>
      currentConversationId (handleDeleteConversation i st)
        = (case conversations (handleDeleteConversation i st) of
             [] \<Rightarrow> None | c # _ \<Rightarrow> Some (conv_id c)))
   \<and> (currentConversationId st \<noteq> Some i \<longrightarrow>
      currentConversationId (handleDeleteConversation i st) = currentConversationId st)
   \<and> conversations (handleDeleteConversation i st)
       = filter (\<lambda>c. conv_id c \<noteq> i) (conversations st)"
  by (simp add: handleDeleteConversation_def)

theorem delete_reassigns_active_conversation_witness:
  "currentConversationId ex_state = Some ''conv-1''
   \<and> currentConversationId ex_state \<noteq> Some ''conv-9''
   \<and> currentConversationId
     (handleDeleteConversation ''conv-1''
        \<lparr>conversations = [ex_conv, ex_conv\<lparr>conv_id := ''conv-2''\<rparr>],
         currentConversationId = Some ''conv-1'', isThinking = False\<rparr>) = Some ''conv-2''
   \<and> currentConversationId (handleDeleteConversation ''conv-1'' ex_state) = None
   \<and> currentConversationId (handleDeleteConversation ''conv-9'' ex_state) = Some ''conv-1''"
  using delete_reassigns_active_conversation
      [of "\<lparr>conversations = [ex_conv, ex_conv\<lparr>conv_id := ''conv-2''\<rparr>],
         currentConversationId = Some ''conv-1'', isThinking = False\<rparr>" "''conv-1''"]
    delete_reassigns_active_conversation [of ex_state "''conv-1''"]
    delete_reassigns_active_conversation [of ex_state "''conv-9''"]
  by (simp add: ex_state_def ex_conv_def)


end
